theory Spec2Isabelle
  imports Complex_Main "HOL-Library.Multiset" "HOL-Library.Sublist" "HOL-Library.Product_Lexorder"
begin

section \<open>Washington Climate-Fire Risk dashboard: the data model\<close>

text \<open>
  The dashboard script reads three tables and renders one page per pass. The tables are
  modelled as lists of rows (a data frame keeps its row order), one record per row, with the
  column names of the CSV files.

  A declaration date is a calendar date \<open>(year, month, day)\<close>; dates are compared
  lexicographically, and \<open>.dt.year\<close> is the first component.
\<close>

type_synonym timestamp = "int \<times> nat \<times> nat"

definition dt_year :: "timestamp \<Rightarrow> int" where
  "dt_year d = fst d"

text \<open>One row of \<open>WA_Climate_Fire_Dashboard_Data.csv\<close>.\<close>

record county =
  county_fips :: int
  County :: string
  population :: int
  population_at_risk :: int
  wui_exposure_pct :: real
  climate_fire_risk_score :: real
  risk_category :: string
  climate_trend :: string

text \<open>
  One row of \<open>FEMA_Disasters_Geocoded.csv\<close>. The column \<open>County\<close> of this table is
  the field \<open>fema_County\<close>; \<open>lat\<close> and \<open>lon\<close> are \<open>None\<close> where the cell is empty.
\<close>

record disaster =
  fema_County :: string
  declarationTitle :: string
  declarationDate :: timestamp
  disasterNumber :: int
  lat :: "real option"
  lon :: "real option"

text \<open>
  The \<open>properties\<close> of one GeoJSON feature. \<open>INTPTLAT\<close> and \<open>INTPTLON\<close> hold the number
  that \<open>float(...)\<close> reads from the property, \<open>None\<close> when the key is absent.
\<close>

record feature =
  GEOID :: string
  INTPTLAT :: "real option"
  INTPTLON :: "real option"

text \<open>The values of the sidebar widgets in one pass.\<close>

record params =
  selected_risk :: string
  selected_trend :: string
  min_population :: int
  show_fema_markers :: bool
  fema_year_range :: "int \<times> int"

text \<open>
  The script sorts with \<open>sort_values(..., ascending=False)\<close> and, inside
  \<open>value_counts()\<close>, by descending count. Both sorts belong to the data-frame library; they
  are parameters of the model. \<open>sort_values_contract\<close> is what the library documents for
  every sorting kind: the result is a rearrangement of the rows, ordered non-increasing by the
  key. \<open>sort_values_stable\<close> is the additional guarantee of the kinds \<open>stable\<close> and
  \<open>mergesort\<close> (rows with equal keys keep their input order); the script asks for no
  particular kind.

  A third parameter belongs to the widget library: whether \<open>st.slider\<close> accepts the bounds,
  default and step it is given (it raises \<open>StreamlitAPIException\<close> when it does not).
\<close>

record slider_args =
  s_min :: int
  s_max :: int
  s_value :: "int list"
  s_step :: "int option"

record libraries =
  sort_by_date_desc :: "disaster list \<Rightarrow> disaster list"
  sort_by_count_desc :: "(string \<times> nat) list \<Rightarrow> (string \<times> nat) list"
  slider_accepts :: "slider_args \<Rightarrow> bool"

definition sort_values_contract :: "('a \<Rightarrow> 'k::linorder) \<Rightarrow> ('a list \<Rightarrow> 'a list) \<Rightarrow> bool" where
  "sort_values_contract key srt \<longleftrightarrow>
     (\<forall>xs. mset (srt xs) = mset xs \<and> sorted_wrt (\<lambda>a b. key b \<le> key a) (srt xs))"

definition sort_values_stable :: "('a \<Rightarrow> 'k) \<Rightarrow> ('a list \<Rightarrow> 'a list) \<Rightarrow> bool" where
  "sort_values_stable key srt \<longleftrightarrow>
     (\<forall>xs k. filter (\<lambda>x. key x = k) (srt xs) = filter (\<lambda>x. key x = k) xs)"

text \<open>
  A stable descending sort, as the library performs it for \<open>ascending=False\<close>: reverse,
  sort ascending and stably, reverse again. \<open>stable_pandas\<close> is the instance with these
  sorts and a slider that asks for a lower bound below the upper bound.
\<close>

definition stable_sort_desc :: "('a \<Rightarrow> 'k::linorder) \<Rightarrow> 'a list \<Rightarrow> 'a list" where
  "stable_sort_desc key xs = rev (sort_key key (rev xs))"

definition stable_pandas :: libraries where
  "stable_pandas = \<lparr> sort_by_date_desc = stable_sort_desc declarationDate,
                      sort_by_count_desc = stable_sort_desc snd,
                      slider_accepts = (\<lambda>a. s_min a < s_max a) \<rparr>"

section \<open>Rendering integers: \<open>str(int(x))\<close>\<close>

definition digit_char :: "nat \<Rightarrow> char" where
  "digit_char d = ''0123456789'' ! d"

fun str_nat :: "nat \<Rightarrow> string" where
  "str_nat n = (if n < 10 then [digit_char n] else str_nat (n div 10) @ [digit_char (n mod 10)])"

declare str_nat.simps [simp del]

definition str_int :: "int \<Rightarrow> string" where
  "str_int i = (if i < 0 then CHR ''-'' # str_nat (nat (- i)) else str_nat (nat i))"


section \<open>Filter engine (\<open>filtered_df\<close>)\<close>

definition apply_filters :: "county list \<Rightarrow> params \<Rightarrow> county list" where
  "apply_filters df p =
     (let filtered_df = df;
          filtered_df = (if selected_risk p \<noteq> ''All''
                         then filter (\<lambda>c. risk_category c = selected_risk p) filtered_df
                         else filtered_df);
          filtered_df = (if selected_trend p \<noteq> ''All''
                         then filter (\<lambda>c. climate_trend c = selected_trend p) filtered_df
                         else filtered_df)
      in filter (\<lambda>c. population c \<ge> min_population p) filtered_df)"

text \<open>The brute-force reference filter of the specification: one conjunction per row.\<close>

definition reference_filter :: "county list \<Rightarrow> params \<Rightarrow> county list" where
  "reference_filter df p =
     filter (\<lambda>c. (selected_risk p = ''All'' \<or> risk_category c = selected_risk p)
               \<and> (selected_trend p = ''All'' \<or> climate_trend c = selected_trend p)
               \<and> min_population p \<le> population c) df"

section \<open>Key metrics row\<close>

text \<open>
  The columns \<open>population\<close> and \<open>population_at_risk\<close> hold 64-bit signed integers, and
  \<open>.sum()\<close> adds them in that type: the sum wraps around at \<open>2 ^ 63\<close>.
\<close>

definition int64 :: "int \<Rightarrow> int" where
  "int64 i = (i + 2 ^ 63) mod 2 ^ 64 - 2 ^ 63"

definition column_sum :: "int list \<Rightarrow> int" where
  "column_sum xs = int64 (sum_list xs)"

text \<open>
  The four \<open>st.metric\<close> cards. \<open>wui_population\<close> and \<open>high_wui_risk\<close> are the two column
  sums, which the cards print in millions with one decimal; \<open>wui_pct\<close> is the exact value
  of the quotient of the two sums times 100, which the script computes in floating point and
  prints without decimals (\<open>None\<close> when the population sum is zero, where the float
  division gives no finite number).
\<close>

record metrics =
  high_risk_counties :: nat
  fema_fire_disasters :: nat
  wui_population :: int
  high_wui_risk :: int
  wui_pct :: "real option"

definition metrics_row :: "county list \<Rightarrow> disaster list option \<Rightarrow> metrics" where
  "metrics_row df fema_data =
     \<lparr> high_risk_counties = length (filter (\<lambda>c. risk_category c = ''High'') df),
       fema_fire_disasters = (case fema_data of Some fema \<Rightarrow> length fema | None \<Rightarrow> 211),
       wui_population = column_sum (map population df),
       high_wui_risk = column_sum (map population_at_risk df),
       wui_pct = (if column_sum (map population df) = 0 then None
                  else Some (real_of_int (column_sum (map population_at_risk df))
                             / real_of_int (column_sum (map population df)) * 100)) \<rparr>"

section \<open>Style resolver\<close>

datatype caption = StableCaption | WarmingCaption | HighRiskCaption | DefaultCaption

definition dynamic_caption :: "params \<Rightarrow> caption" where
  "dynamic_caption p =
     (if selected_trend p = ''Stable'' \<and> selected_risk p = ''All'' then StableCaption
      else if selected_trend p = ''Warming & Drying'' then WarmingCaption
      else if selected_risk p = ''High'' then HighRiskCaption
      else DefaultCaption)"

text \<open>\<open>(color_scheme, fill_opacity)\<close> of the choropleth.\<close>

definition choropleth_style :: "string \<Rightarrow> string \<Rightarrow> string \<times> real" where
  "choropleth_style sel_trend sel_risk =
     (if sel_trend = ''Warming & Drying'' then (''Reds'', 0.8)
      else if sel_trend = ''Stable'' then (''Greens'', 0.6)
      else if sel_risk = ''Low'' then (''Greens'', 0.6)
      else (''YlOrRd'', 0.7))"

definition icon_color :: "string \<Rightarrow> string" where
  "icon_color cat =
     (if cat = ''High'' then ''darkred'' else if cat = ''Moderate'' then ''orange'' else ''green'')"

section \<open>Choropleth layer\<close>

text \<open>
  The arguments handed to \<open>folium.Choropleth\<close>: the features, the two columns of
  \<open>filtered_df\<close>, the key path into the features, and the style. Binding a row to a
  feature is the map library's work.
\<close>

record choropleth =
  geo_data :: "feature list"
  choropleth_data :: "(int \<times> real) list"
  key_on :: string
  fill_color :: string
  fill_opacity :: real
  nan_fill_color :: string

definition choropleth_of :: "feature list \<Rightarrow> county list \<Rightarrow> params \<Rightarrow> choropleth" where
  "choropleth_of geojson filtered_df p =
     \<lparr> geo_data = geojson,
       choropleth_data = map (\<lambda>c. (county_fips c, climate_fire_risk_score c)) filtered_df,
       key_on = ''feature.properties.GEOID'',
       fill_color = fst (choropleth_style (selected_trend p) (selected_risk p)),
       fill_opacity = snd (choropleth_style (selected_trend p) (selected_risk p)),
       nan_fill_color = ''lightgray'' \<rparr>"

section \<open>Clustered FEMA disaster markers\<close>

text \<open>
  One marker of the cluster: its location and the row whose title, county, date and
  disaster number fill the popup.
\<close>

record fema_marker =
  fm_location :: "real \<times> real"
  fm_row :: disaster

definition year_filter :: "int \<times> int \<Rightarrow> disaster list \<Rightarrow> disaster list" where
  "year_filter yr fema =
     filter (\<lambda>d. dt_year (declarationDate d) \<ge> fst yr \<and> dt_year (declarationDate d) \<le> snd yr) fema"

definition dropna_lat_lon :: "disaster list \<Rightarrow> disaster list" where
  "dropna_lat_lon fema = filter (\<lambda>d. lat d \<noteq> None \<and> lon d \<noteq> None) fema"

definition fema_markers :: "params \<Rightarrow> disaster list option \<Rightarrow> fema_marker list option" where
  "fema_markers p fema_data =
     (case fema_data of
        Some fema \<Rightarrow>
          if show_fema_markers p
          then Some (map (\<lambda>row. \<lparr> fm_location = (the (lat row), the (lon row)), fm_row = row \<rparr>)
                         (dropna_lat_lon (year_filter (fema_year_range p) fema)))
          else None
      | None \<Rightarrow> None)"

section \<open>County popups\<close>

text \<open>\<open>sort_values('declarationDate', ascending=False).head(n)\<close>; the script uses \<open>n = 3\<close>.\<close>

definition recent_top :: "libraries \<Rightarrow> nat \<Rightarrow> disaster list \<Rightarrow> disaster list" where
  "recent_top lib n ds = take n (sort_by_date_desc lib ds)"

fun join_str :: "string \<Rightarrow> string list \<Rightarrow> string" where
  "join_str sep [] = []"
| "join_str sep [x] = x"
| "join_str sep (x # y # ys) = x @ sep @ join_str sep (y # ys)"

text \<open>
  One line of the fire list: a bullet (U+2022 in UTF-8), the title, and in brackets the
  year as \<open>strftime('%Y')\<close> prints it, which for the years of a timestamp is its decimal
  rendering.
\<close>

definition fire_line :: "disaster \<Rightarrow> string" where
  "fire_line fire =
     [CHR 0xE2, CHR 0x80, CHR 0xA2] @ '' '' @ declarationTitle fire
       @ '' ('' @ str_int (dt_year (declarationDate fire)) @ '')''"

record county_popup =
  popup_row :: county
  fema_count_county :: nat
  fires_list :: string

definition county_fema :: "disaster list \<Rightarrow> county \<Rightarrow> disaster list" where
  "county_fema fema row = filter (\<lambda>d. fema_County d = County row) fema"

definition popup_of :: "libraries \<Rightarrow> disaster list option \<Rightarrow> county \<Rightarrow> county_popup" where
  "popup_of lib fema_data row =
     (case fema_data of
        Some fema \<Rightarrow>
          \<lparr> popup_row = row,
            fema_count_county = length (county_fema fema row),
            fires_list = join_str ''<br>'' (map fire_line (recent_top lib 3 (county_fema fema row))) \<rparr>
      | None \<Rightarrow>
          \<lparr> popup_row = row, fema_count_county = 0, fires_list = ''Data not available'' \<rparr>)"

record info_marker =
  im_location :: "real \<times> real"
  im_popup :: county_popup
  im_icon_color :: string

definition marker_of :: "libraries \<Rightarrow> disaster list option \<Rightarrow> county \<Rightarrow> feature \<Rightarrow> info_marker" where
  "marker_of lib fema_data row ft =
     \<lparr> im_location = (case INTPTLAT ft of Some v \<Rightarrow> v | None \<Rightarrow> 47.5,
                      case INTPTLON ft of Some v \<Rightarrow> v | None \<Rightarrow> - 120.5),
       im_popup = popup_of lib fema_data row,
       im_icon_color = icon_color (risk_category row) \<rparr>"

text \<open>The inner loop over the features: the first feature whose identifier matches.\<close>

fun find_feature :: "feature list \<Rightarrow> string \<Rightarrow> feature option" where
  "find_feature [] k = None"
| "find_feature (ft # fts) k = (if GEOID ft = k then Some ft else find_feature fts k)"

text \<open>
  The outer loop over \<open>filtered_df\<close>. A row without a matching feature runs through the
  inner loop and adds nothing.
\<close>

fun info_markers :: "libraries \<Rightarrow> feature list \<Rightarrow> disaster list option \<Rightarrow> county list \<Rightarrow> info_marker list" where
  "info_markers lib geojson fema_data [] = []"
| "info_markers lib geojson fema_data (row # rows) =
     (case find_feature geojson (str_int (county_fips row)) of
        Some ft \<Rightarrow> marker_of lib fema_data row ft # info_markers lib geojson fema_data rows
      | None \<Rightarrow> info_markers lib geojson fema_data rows)"

section \<open>Histograms and the ranked table\<close>

text \<open>
  Counting the occurrences of each value, in the order of first appearance; this is the
  tally behind \<open>value_counts()\<close> and behind \<open>groupby('County').size()\<close>.
\<close>

fun bump :: "'a \<Rightarrow> ('a \<times> nat) list \<Rightarrow> ('a \<times> nat) list" where
  "bump k [] = [(k, 1)]"
| "bump k ((k', c) # kvs) = (if k = k' then (k', Suc c) # kvs else (k', c) # bump k kvs)"

definition tally :: "'a list \<Rightarrow> ('a \<times> nat) list" where
  "tally xs = foldl (\<lambda>acc x. bump x acc) [] xs"

definition value_counts :: "libraries \<Rightarrow> string list \<Rightarrow> (string \<times> nat) list" where
  "value_counts lib xs = sort_by_count_desc lib (tally xs)"

text \<open>
  A row of the ranked table. Rounding and thousands separators are display formatting and
  are left to the cells' printing; \<open>t_federal_disasters\<close> is \<open>None\<close> when the table has
  no such column.
\<close>

record table_row =
  t_rank :: nat
  t_county :: string
  t_risk_score :: real
  t_category :: string
  t_climate_trend :: string
  t_population_at_risk :: int
  t_wui :: real
  t_federal_disasters :: "nat option"

record table =
  columns :: "string list"
  table_rows :: "table_row list"

definition display_row :: "disaster list option \<Rightarrow> nat \<times> county \<Rightarrow> table_row" where
  "display_row fema_data ir =
     \<lparr> t_rank = fst ir,
       t_county = County (snd ir),
       t_risk_score = climate_fire_risk_score (snd ir),
       t_category = risk_category (snd ir),
       t_climate_trend = climate_trend (snd ir),
       t_population_at_risk = population_at_risk (snd ir),
       t_wui = wui_exposure_pct (snd ir),
       t_federal_disasters =
         (case fema_data of
            Some fema \<Rightarrow>
              Some (case map_of (tally (map fema_County fema)) (County (snd ir)) of
                      Some n \<Rightarrow> n | None \<Rightarrow> 0)
          | None \<Rightarrow> None) \<rparr>"

definition rankings_table :: "county list \<Rightarrow> disaster list option \<Rightarrow> table" where
  "rankings_table filtered_df fema_data =
     \<lparr> columns = ''Rank'' #
         (case fema_data of
            Some fema \<Rightarrow> [''County'', ''Risk Score'', ''Category'', ''Climate Trend'',
                           ''Population at Risk'', ''WUI %'', ''Federal Disasters'']
          | None \<Rightarrow> [''County'', ''Risk Score'', ''Category'', ''Climate Trend'',
                      ''Population at Risk'', ''WUI %'']),
       table_rows = map (display_row fema_data) (zip [1 ..< Suc (length filtered_df)] filtered_df) \<rparr>"

section \<open>One pass of the script\<close>

record page =
  sidebar_info :: "nat \<times> nat"
  key_metrics :: metrics
  data_source_info :: "nat option"
  map_caption :: caption
  choropleth_layer :: choropleth
  fema_marker_layer :: "fema_marker list option"
  info_marker_layer :: "info_marker list"
  risk_counts :: "(string \<times> nat) list"
  trend_counts :: "(string \<times> nat) list"
  display_df :: table
  csv :: "county list"

definition dashboard :: "libraries \<Rightarrow> county list \<Rightarrow> feature list \<Rightarrow> disaster list option \<Rightarrow> params \<Rightarrow> page" where
  "dashboard lib df geojson fema_data p =
     (let filtered_df = apply_filters df p in
      \<lparr> sidebar_info = (length filtered_df, length df),
        key_metrics = metrics_row df fema_data,
        data_source_info = map_option length fema_data,
        map_caption = dynamic_caption p,
        choropleth_layer = choropleth_of geojson filtered_df p,
        fema_marker_layer = fema_markers p fema_data,
        info_marker_layer = info_markers lib geojson fema_data filtered_df,
        risk_counts = value_counts lib (map risk_category filtered_df),
        trend_counts = value_counts lib (map climate_trend filtered_df),
        display_df = rankings_table filtered_df fema_data,
        csv = filtered_df \<rparr>)"

text \<open>
  The script from the top, with every place where it stops.
  \<^item> The two required files raise \<open>FileNotFoundError\<close> when missing (reported with
    \<open>st.error\<close>, then \<open>st.stop\<close>); the FEMA loader catches it and returns \<open>None\<close>.
  \<^item> The upper bound of the population slider is \<open>int(df['population'].max())\<close>, which
    raises \<open>ValueError\<close> on a table without rows (the maximum is then not a number); the
    slider itself may refuse its arguments.
  \<^item> The year slider is built when the markers are shown and the Disaster table is loaded;
    its bounds are the least and the greatest declaration year, with the same two failures.
  \<^item> \<open>px.bar\<close> is given the index and the values of \<open>trend_counts\<close>; when the filtered
    table is empty both are empty, and the charting library raises \<open>ValueError\<close> (it takes
    two empty sequences for two lists of columns).
  Otherwise the page is rendered.
\<close>

datatype error = DataFilesNotFound | ValueError | StreamlitAPIException

definition column_max :: "int list \<Rightarrow> int option" where
  "column_max xs = (case xs of [] \<Rightarrow> None | x # xs' \<Rightarrow> Some (fold max xs' x))"

definition column_min :: "int list \<Rightarrow> int option" where
  "column_min xs = (case xs of [] \<Rightarrow> None | x # xs' \<Rightarrow> Some (fold min xs' x))"

definition population_slider :: "int \<Rightarrow> slider_args" where
  "population_slider hi = \<lparr> s_min = 0, s_max = hi, s_value = [0], s_step = Some 10000 \<rparr>"

definition year_slider :: "int \<Rightarrow> int \<Rightarrow> slider_args" where
  "year_slider lo hi = \<lparr> s_min = lo, s_max = hi, s_value = [2015, hi], s_step = None \<rparr>"

definition sidebar :: "libraries \<Rightarrow> county list \<Rightarrow> disaster list option \<Rightarrow> params \<Rightarrow> error option" where
  "sidebar lib df fema_data p =
     (case column_max (map population df) of
        None \<Rightarrow> Some ValueError
      | Some hi \<Rightarrow>
          if \<not> slider_accepts lib (population_slider hi) then Some StreamlitAPIException
          else if show_fema_markers p then
            (case fema_data of
               None \<Rightarrow> None
             | Some fema \<Rightarrow>
                (case (column_min (map (\<lambda>d. dt_year (declarationDate d)) fema),
                       column_max (map (\<lambda>d. dt_year (declarationDate d)) fema)) of
                   (Some ylo, Some yhi) \<Rightarrow>
                     if slider_accepts lib (year_slider ylo yhi) then None
                     else Some StreamlitAPIException
                 | _ \<Rightarrow> Some ValueError))
          else None)"

definition main :: "libraries \<Rightarrow> county list option \<Rightarrow> feature list option \<Rightarrow> disaster list option
                      \<Rightarrow> params \<Rightarrow> error + page" where
  "main lib df_file geojson_file fema_data p =
     (case df_file of
        None \<Rightarrow> Inl DataFilesNotFound
      | Some df \<Rightarrow>
         (case geojson_file of
            None \<Rightarrow> Inl DataFilesNotFound
          | Some geojson \<Rightarrow>
             (case sidebar lib df fema_data p of
                Some e \<Rightarrow> Inl e
              | None \<Rightarrow>
                  if apply_filters df p = [] then Inl ValueError
                  else Inr (dashboard lib df geojson fema_data p))))"

section \<open>Sample data\<close>

text \<open>Two Washington counties, their features and three declarations.\<close>

definition chelan :: county where
  "chelan = \<lparr> county_fips = 53007, County = ''Chelan'', population = 79000,
              population_at_risk = 30000, wui_exposure_pct = 38, climate_fire_risk_score = 72,
              risk_category = ''High'', climate_trend = ''Warming & Drying'' \<rparr>"

definition king :: county where
  "king = \<lparr> county_fips = 53033, County = ''King'', population = 2269675,
            population_at_risk = 200000, wui_exposure_pct = 8.8, climate_fire_risk_score = 31,
            risk_category = ''Low'', climate_trend = ''Stable'' \<rparr>"

definition chelan_ft :: feature where
  "chelan_ft = \<lparr> GEOID = ''53007'', INTPTLAT = Some 48, INTPTLON = Some (- 120) \<rparr>"

definition king_ft :: feature where
  "king_ft = \<lparr> GEOID = ''53033'', INTPTLAT = None, INTPTLON = None \<rparr>"

definition fire_2000 :: disaster where
  "fire_2000 = \<lparr> fema_County = ''Chelan'', declarationTitle = ''RAT CREEK FIRE'',
                 declarationDate = (2000, 7, 28), disasterNumber = 2319,
                 lat = Some 48, lon = Some (- 120) \<rparr>"

definition fire_2020 :: disaster where
  "fire_2020 = \<lparr> fema_County = ''Chelan'', declarationTitle = ''APPLE ACRES FIRE'',
                 declarationDate = (2020, 9, 8), disasterNumber = 5355,
                 lat = Some 48, lon = Some (- 120) \<rparr>"

definition fire_2021 :: disaster where
  "fire_2021 = \<lparr> fema_County = ''Chelan'', declarationTitle = ''RED APPLE FIRE'',
                 declarationDate = (2021, 7, 14), disasterNumber = 5400,
                 lat = None, lon = None \<rparr>"

definition all_params :: params where
  "all_params = \<lparr> selected_risk = ''All'', selected_trend = ''All'', min_population = 0,
                  show_fema_markers = True, fema_year_range = (2015, 2024) \<rparr>"

section \<open>Filter engine\<close>

lemma apply_filters_reference: "apply_filters df p = reference_filter df p"
  by (auto simp: apply_filters_def reference_filter_def Let_def intro: filter_cong)

text \<open>
  C2. For every Counties table and every parameter value the filter returns exactly the rows
  that satisfy the conjunction of the three predicates (category equality unless the
  parameter is \<open>All\<close>, trend equality unless \<open>All\<close>, population at least the minimum): it
  agrees with the brute-force reference filter, keeps the order of the rows, and is a
  subset of the input.
\<close>

theorem C2_filter_is_conjunction:
  "apply_filters df p = reference_filter df p
   \<and> set (apply_filters df p) \<subseteq> set df
   \<and> subseq (apply_filters df p) df
   \<and> (c \<in> set (apply_filters df p) \<longleftrightarrow>
        c \<in> set df
        \<and> (selected_risk p \<noteq> ''All'' \<longrightarrow> risk_category c = selected_risk p)
        \<and> (selected_trend p \<noteq> ''All'' \<longrightarrow> climate_trend c = selected_trend p)
        \<and> population c \<ge> min_population p)"
  unfolding apply_filters_reference by (auto simp: reference_filter_def)

text \<open>
  At the sample table: category \<open>Low\<close> alone keeps King; together with a minimum population
  that no county reaches, nothing is left (a conjunction, not a union).
\<close>

theorem C2_filter_is_conjunction_witness:
  "apply_filters [chelan, king] (all_params\<lparr>selected_risk := ''Low''\<rparr>) = [king]
   \<and> apply_filters [chelan, king]
        (all_params\<lparr>selected_risk := ''Low'', min_population := 10000000\<rparr>) = []"
  using C2_filter_is_conjunction [of "[chelan, king]" "all_params\<lparr>selected_risk := ''Low''\<rparr>" king]
    C2_filter_is_conjunction [of "[chelan, king]"
      "all_params\<lparr>selected_risk := ''Low'', min_population := 10000000\<rparr>" king]
  by (simp add: reference_filter_def chelan_def king_def all_params_def)

section \<open>Key metrics\<close>

lemma int64_in_range: "- (2 ^ 63) \<le> i \<Longrightarrow> i < 2 ^ 63 \<Longrightarrow> int64 i = i"
  by (simp add: int64_def)

lemma sample_sums:
  "column_sum [population chelan, population king] = 2348675"
  "column_sum [population_at_risk chelan, population_at_risk king] = 230000"
  "column_sum [population chelan] = 79000"
  "column_sum [population_at_risk chelan] = 30000"
  by (simp_all add: column_sum_def int64_in_range chelan_def king_def)

text \<open>
  C1 (as the code has it). Every card of the metrics row is computed from the full,
  unfiltered Counties table: the high-risk count, the total population and the at-risk
  population with its percentage. The row is therefore the same under every filter
  combination. The two totals are the 64-bit column sums, equal to the sums of the cells
  unless these leave the 64-bit range.
\<close>

theorem C1_metrics_from_full_table:
  "key_metrics (dashboard lib df geojson fema_data p)
     = key_metrics (dashboard lib df geojson fema_data p')
   \<and> high_risk_counties (key_metrics (dashboard lib df geojson fema_data p))
        = length (filter (\<lambda>c. risk_category c = ''High'') df)
   \<and> wui_population (key_metrics (dashboard lib df geojson fema_data p))
        = column_sum (map population df)
   \<and> high_wui_risk (key_metrics (dashboard lib df geojson fema_data p))
        = column_sum (map population_at_risk df)
   \<and> wui_pct (key_metrics (dashboard lib df geojson fema_data p))
        = (if column_sum (map population df) = 0 then None
           else Some (real_of_int (column_sum (map population_at_risk df))
                      / real_of_int (column_sum (map population df)) * 100))
   \<and> (- (2 ^ 63) \<le> sum_list xs \<and> sum_list xs < 2 ^ 63 \<longrightarrow> column_sum xs = sum_list xs)"
  by (simp add: dashboard_def metrics_row_def Let_def column_sum_def int64_in_range)

text \<open>
  The sample table with the category filter at \<open>Low\<close>: the cards hold the totals of both
  counties, and no sum leaves the 64-bit range.
\<close>

theorem C1_metrics_from_full_table_witness:
  "wui_population (key_metrics (dashboard stable_pandas [chelan, king] [] None
       (all_params\<lparr>selected_risk := ''Low''\<rparr>))) = 2348675
   \<and> high_wui_risk (key_metrics (dashboard stable_pandas [chelan, king] [] None
       (all_params\<lparr>selected_risk := ''Low''\<rparr>))) = 230000
   \<and> high_risk_counties (key_metrics (dashboard stable_pandas [chelan, king] [] None
       (all_params\<lparr>selected_risk := ''Low''\<rparr>))) = 1
   \<and> column_sum [79000, 2269675] = sum_list [79000, 2269675]"
proof -
  note full = C1_metrics_from_full_table [of stable_pandas "[chelan, king]" "[]" None
      "all_params\<lparr>selected_risk := ''Low''\<rparr>" all_params "[79000, 2269675]"]
  from full have "wui_population (key_metrics (dashboard stable_pandas [chelan, king] [] None
       (all_params\<lparr>selected_risk := ''Low''\<rparr>))) = column_sum (map population [chelan, king])"
    by blast
  moreover from full have "high_wui_risk (key_metrics (dashboard stable_pandas [chelan, king] []
       None (all_params\<lparr>selected_risk := ''Low''\<rparr>)))
       = column_sum (map population_at_risk [chelan, king])"
    by blast
  moreover from full have "high_risk_counties (key_metrics (dashboard stable_pandas [chelan, king] []
       None (all_params\<lparr>selected_risk := ''Low''\<rparr>)))
       = length (filter (\<lambda>c. risk_category c = ''High'') [chelan, king])"
    by blast
  moreover have "- (2 ^ 63) \<le> sum_list [79000, 2269675 :: int]
      \<and> sum_list [79000, 2269675 :: int] < 2 ^ 63"
    by simp
  with full have "column_sum [79000, 2269675] = sum_list [79000, 2269675]"
    by blast
  moreover have "length (filter (\<lambda>c. risk_category c = ''High'') [chelan, king]) = 1"
    by (simp add: chelan_def king_def)
  ultimately show ?thesis
    by (simp add: sample_sums)
qed

text \<open>
  The claim as the specification words it fails: with the category filter at \<open>High\<close> the
  filtered table is Chelan alone (population 79000, 30000 at risk, 38 per cent), yet the
  cards show the totals of both counties: a population of 2348675 (printed 2.3M, not 0.1M)
  and 230000 at risk (printed 0.2M, not 0.0M), which is just under 10 per cent.
\<close>

theorem C1_filtered_sums_counterexample:
  "csv (dashboard stable_pandas [chelan, king] [] None (all_params\<lparr>selected_risk := ''High''\<rparr>))
     = [chelan]
   \<and> wui_population (key_metrics (dashboard stable_pandas [chelan, king] [] None
        (all_params\<lparr>selected_risk := ''High''\<rparr>))) = 2348675
   \<and> column_sum (map population [chelan]) = 79000
   \<and> high_wui_risk (key_metrics (dashboard stable_pandas [chelan, king] [] None
        (all_params\<lparr>selected_risk := ''High''\<rparr>))) = 230000
   \<and> column_sum (map population_at_risk [chelan]) = 30000
   \<and> wui_pct (key_metrics (dashboard stable_pandas [chelan, king] [] None
        (all_params\<lparr>selected_risk := ''High''\<rparr>))) = Some (230000 / 2348675 * 100)
   \<and> (230000 :: real) / 2348675 * 100 < 10
   \<and> 37 < (30000 :: real) / 79000 * 100"
proof -
  have "apply_filters [chelan, king] (all_params\<lparr>selected_risk := ''High''\<rparr>) = [chelan]"
    by (simp add: apply_filters_def all_params_def chelan_def king_def)
  then show ?thesis
    by (simp add: dashboard_def metrics_row_def Let_def sample_sums)
qed

section \<open>Choropleth style\<close>

text \<open>
  C6. The style of the choropleth is a total function of the selected trend and category,
  decided by the first matching rule: trend \<open>Warming & Drying\<close> gives \<open>Reds\<close> at 0.8; else
  trend \<open>Stable\<close> gives \<open>Greens\<close> at 0.6; else category \<open>Low\<close> gives \<open>Greens\<close> at 0.6;
  otherwise \<open>YlOrRd\<close> at 0.7. The layer of the page carries exactly this style.
\<close>

theorem C6_choropleth_rule_table:
  "(t = ''Warming & Drying'' \<longrightarrow> choropleth_style t c = (''Reds'', 0.8))
   \<and> (t \<noteq> ''Warming & Drying'' \<and> t = ''Stable'' \<longrightarrow> choropleth_style t c = (''Greens'', 0.6))
   \<and> (t \<noteq> ''Warming & Drying'' \<and> t \<noteq> ''Stable'' \<and> c = ''Low''
        \<longrightarrow> choropleth_style t c = (''Greens'', 0.6))
   \<and> (t \<noteq> ''Warming & Drying'' \<and> t \<noteq> ''Stable'' \<and> c \<noteq> ''Low''
        \<longrightarrow> choropleth_style t c = (''YlOrRd'', 0.7))
   \<and> choropleth_style t c \<in> {(''Reds'', 0.8), (''Greens'', 0.6), (''YlOrRd'', 0.7)}
   \<and> fill_color (choropleth_layer (dashboard lib df geojson fema_data p))
        = fst (choropleth_style (selected_trend p) (selected_risk p))
   \<and> fill_opacity (choropleth_layer (dashboard lib df geojson fema_data p))
        = snd (choropleth_style (selected_trend p) (selected_risk p))"
  by (simp add: choropleth_style_def dashboard_def choropleth_of_def Let_def)

text \<open>One input per rule; in the first, rule 1 wins over rule 3.\<close>

theorem C6_choropleth_rule_table_witness:
  "choropleth_style ''Warming & Drying'' ''Low'' = (''Reds'', 0.8)
   \<and> choropleth_style ''Stable'' ''High'' = (''Greens'', 0.6)
   \<and> choropleth_style ''All'' ''Low'' = (''Greens'', 0.6)
   \<and> choropleth_style ''All'' ''High'' = (''YlOrRd'', 0.7)"
  using C6_choropleth_rule_table [of "''Warming & Drying''" "''Low''"]
        C6_choropleth_rule_table [of "''Stable''" "''High''"]
        C6_choropleth_rule_table [of "''All''" "''Low''"]
        C6_choropleth_rule_table [of "''All''" "''High''"]
  by simp

section \<open>The sorting contract\<close>

lemma stable_sort_desc_contract: "sort_values_contract key (stable_sort_desc key)"
proof -
  have "sorted_wrt (\<lambda>a b. key b \<le> key a) (rev (sort_key key ys))" for ys :: "'a list"
    using sorted_sort_key [of key ys] by (simp only: sorted_wrt_rev sorted_map)
  then show ?thesis
    by (simp add: sort_values_contract_def stable_sort_desc_def)
qed

lemma stable_sort_desc_stable: "sort_values_stable key (stable_sort_desc key)"
proof -
  have "filter (\<lambda>x. key x = k) (rev (sort_key key (rev xs))) = filter (\<lambda>x. key x = k) xs"
    for k and xs :: "'a list"
  proof -
    have "filter (\<lambda>x. key x = k) (rev (sort_key key (rev xs)))
            = rev (filter (\<lambda>x. key x = k) (sort_key key (rev xs)))"
      by (simp only: rev_filter)
    also have "\<dots> = rev (filter (\<lambda>x. key x = k) (rev xs))"
      by (simp only: sort_key_stable)
    also have "\<dots> = filter (\<lambda>x. key x = k) xs"
      by (simp only: rev_filter rev_rev_ident)
    finally show ?thesis .
  qed
  then show ?thesis
    by (simp add: sort_values_stable_def stable_sort_desc_def)
qed


lemma stable_pandas_date_contract:
  "sort_values_contract declarationDate (sort_by_date_desc stable_pandas)"
  by (simp add: stable_pandas_def stable_sort_desc_contract)

lemma stable_pandas_date_stable:
  "sort_values_stable declarationDate (sort_by_date_desc stable_pandas)"
  by (simp add: stable_pandas_def stable_sort_desc_stable)

lemma stable_pandas_count_contract:
  "sort_values_contract snd (sort_by_count_desc stable_pandas)"
  by (simp add: stable_pandas_def stable_sort_desc_contract)

lemma mset_take_subset: "mset (take n xs) \<subseteq># mset xs"
proof -
  have "mset xs = mset (take n xs) + mset (drop n xs)"
    by (simp flip: mset_append)
  then show ?thesis by simp
qed

lemma sorted_wrt_take_of: "sorted_wrt R xs \<Longrightarrow> sorted_wrt R (take n xs)"
proof -
  assume "sorted_wrt R xs"
  then have "sorted_wrt R (take n xs @ drop n xs)" by simp
  then show ?thesis unfolding sorted_wrt_append by blast
qed


lemma contract_mset: "sort_values_contract key srt \<Longrightarrow> mset (srt xs) = mset xs"
  unfolding sort_values_contract_def by blast

lemma contract_sorted:
  "sort_values_contract key srt \<Longrightarrow> sorted_wrt (\<lambda>a b. key b \<le> key a) (srt xs)"
  unfolding sort_values_contract_def by blast

lemma stable_filter:
  "sort_values_stable key srt \<Longrightarrow> filter (\<lambda>x. key x = k) (srt xs) = filter (\<lambda>x. key x = k) xs"
  unfolding sort_values_stable_def by blast

section \<open>Recent fires of a county\<close>

text \<open>
  C3 (as the code has it). For every sequence \<open>ds\<close> and every \<open>n\<close>, \<open>recent_top\<close> returns at
  most \<open>n\<close> rows, ordered non-increasing by declaration date, each of them a row of \<open>ds\<close>
  (with multiplicity); where the sort keeps equal keys in input order, the rows of one date
  are the first rows of that date in \<open>ds\<close>. In the popup, \<open>ds\<close> is the county's all-time
  list of declarations (every row of the Disaster table with the county's name) and
  \<open>n = 3\<close>: the year range plays no part.
\<close>

theorem C3_recent_top:
  assumes "sort_values_contract declarationDate (sort_by_date_desc lib)"
  shows "length (recent_top lib n ds) \<le> n
    \<and> sorted_wrt (\<lambda>a b. declarationDate b \<le> declarationDate a) (recent_top lib n ds)
    \<and> mset (recent_top lib n ds) \<subseteq># mset ds
    \<and> (sort_values_stable declarationDate (sort_by_date_desc lib) \<longrightarrow>
         prefix (filter (\<lambda>d. declarationDate d = k) (recent_top lib n ds))
                (filter (\<lambda>d. declarationDate d = k) ds))
    \<and> fires_list (popup_of lib (Some fema) row)
         = join_str ''<br>'' (map fire_line
             (recent_top lib 3 (filter (\<lambda>d. fema_County d = County row) fema)))"
proof (intro conjI impI)
  show "length (recent_top lib n ds) \<le> n"
    by (simp add: recent_top_def)
  show "sorted_wrt (\<lambda>a b. declarationDate b \<le> declarationDate a) (recent_top lib n ds)"
    unfolding recent_top_def by (rule sorted_wrt_take_of) (rule contract_sorted [OF assms])
  show "mset (recent_top lib n ds) \<subseteq># mset ds"
    unfolding recent_top_def
    using mset_take_subset [of n "sort_by_date_desc lib ds"]
    by (simp only: contract_mset [OF assms])
  show "prefix (filter (\<lambda>d. declarationDate d = k) (recent_top lib n ds))
               (filter (\<lambda>d. declarationDate d = k) ds)"
    if st: "sort_values_stable declarationDate (sort_by_date_desc lib)"
  proof -
    have "prefix (filter (\<lambda>d. declarationDate d = k) (take n (sort_by_date_desc lib ds)))
                 (filter (\<lambda>d. declarationDate d = k) (sort_by_date_desc lib ds))"
      by (rule filter_mono_prefix) (rule take_is_prefix)
    then show ?thesis
      unfolding recent_top_def by (simp only: stable_filter [OF st])
  qed
  show "fires_list (popup_of lib (Some fema) row)
         = join_str ''<br>'' (map fire_line
             (recent_top lib 3 (filter (\<lambda>d. fema_County d = County row) fema)))"
    by (simp add: popup_of_def county_fema_def)
qed


lemma sample_sort:
  "sort_by_date_desc stable_pandas [fire_2000, fire_2020, fire_2021] = [fire_2021, fire_2020, fire_2000]"
  by (simp add: stable_pandas_def stable_sort_desc_def fire_2000_def fire_2020_def fire_2021_def)


text \<open>The two most recent of three declarations, under the stable sort.\<close>

theorem C3_recent_top_witness:
  "recent_top stable_pandas 2 [fire_2000, fire_2020, fire_2021] = [fire_2021, fire_2020]
   \<and> length (recent_top stable_pandas 2 [fire_2000, fire_2020, fire_2021]) \<le> 2
   \<and> sorted_wrt (\<lambda>a b. declarationDate b \<le> declarationDate a)
        (recent_top stable_pandas 2 [fire_2000, fire_2020, fire_2021])
   \<and> mset (recent_top stable_pandas 2 [fire_2000, fire_2020, fire_2021])
        \<subseteq># mset [fire_2000, fire_2020, fire_2021]
   \<and> prefix (filter (\<lambda>d. declarationDate d = (2020, 9, 8))
                (recent_top stable_pandas 2 [fire_2000, fire_2020, fire_2021]))
              (filter (\<lambda>d. declarationDate d = (2020, 9, 8)) [fire_2000, fire_2020, fire_2021])"
proof -
  note c3 = C3_recent_top [OF stable_pandas_date_contract,
      of 2 "[fire_2000, fire_2020, fire_2021]" "(2020, 9, 8)"]
  have top: "recent_top stable_pandas 2 [fire_2000, fire_2020, fire_2021] = [fire_2021, fire_2020]"
    by (simp add: recent_top_def sample_sort)
  from c3 stable_pandas_date_stable top show ?thesis by blast
qed

lemma str_int_2020: "str_int 2020 = ''2020''"
  by (simp add: str_int_def str_nat.simps digit_char_def)

lemma str_int_2000: "str_int 2000 = ''2000''"
  by (simp add: str_int_def str_nat.simps digit_char_def)

lemma str_int_53007: "str_int 53007 = ''53007''"
  by (simp add: str_int_def str_nat.simps digit_char_def)

lemma sample_sort2:
  "sort_by_date_desc stable_pandas [fire_2000, fire_2020] = [fire_2020, fire_2000]"
  by (simp add: stable_pandas_def stable_sort_desc_def fire_2000_def fire_2020_def)


lemma county_fema_sample:
  "county_fema [fire_2000, fire_2020] chelan = [fire_2000, fire_2020]"
  by (simp add: county_fema_def fire_2000_def fire_2020_def chelan_def)

text \<open>
  The claim as the specification words it fails on the year-filtered input: with the year
  range 2015 to 2024 the popup of Chelan lists the fire of 2000, which the year filter
  drops.
\<close>

theorem C3_year_filtered_counterexample:
  "map (\<lambda>m. fires_list (im_popup m))
     (info_marker_layer (dashboard stable_pandas [chelan] [chelan_ft]
        (Some [fire_2000, fire_2020]) all_params))
     = [[CHR 0xE2, CHR 0x80, CHR 0xA2] @ '' APPLE ACRES FIRE (2020)<br>''
        @ [CHR 0xE2, CHR 0x80, CHR 0xA2] @ '' RAT CREEK FIRE (2000)'']
   \<and> recent_top stable_pandas 3 (county_fema [fire_2000, fire_2020] chelan)
       = [fire_2020, fire_2000]
   \<and> year_filter (fema_year_range all_params) [fire_2000, fire_2020] = [fire_2020]
   \<and> fire_2000 \<noteq> fire_2020"
proof -
  have flt: "apply_filters [chelan] all_params = [chelan]"
    by (simp add: apply_filters_def all_params_def chelan_def)
  have ft: "GEOID chelan_ft = str_int (county_fips chelan)"
    by (simp add: chelan_def chelan_ft_def str_int_53007)
  have top: "recent_top stable_pandas 3 (county_fema [fire_2000, fire_2020] chelan)
       = [fire_2020, fire_2000]"
    by (simp add: recent_top_def county_fema_sample sample_sort2)
  have lines: "fire_line fire_2020 = [CHR 0xE2, CHR 0x80, CHR 0xA2] @ '' APPLE ACRES FIRE (2020)''"
    "fire_line fire_2000 = [CHR 0xE2, CHR 0x80, CHR 0xA2] @ '' RAT CREEK FIRE (2000)''"
    by (simp_all add: fire_line_def fire_2000_def fire_2020_def dt_year_def str_int_2020
        str_int_2000)
  have "map (\<lambda>m. fires_list (im_popup m))
     (info_marker_layer (dashboard stable_pandas [chelan] [chelan_ft]
        (Some [fire_2000, fire_2020]) all_params))
     = [[CHR 0xE2, CHR 0x80, CHR 0xA2] @ '' APPLE ACRES FIRE (2020)<br>''
        @ [CHR 0xE2, CHR 0x80, CHR 0xA2] @ '' RAT CREEK FIRE (2000)'']"
    by (simp add: dashboard_def Let_def flt ft marker_of_def popup_of_def top lines)
  moreover have "year_filter (fema_year_range all_params) [fire_2000, fire_2020] = [fire_2020]"
    by (simp add: year_filter_def all_params_def fire_2000_def fire_2020_def dt_year_def)
  moreover have "fire_2000 \<noteq> fire_2020"
    by (simp add: fire_2000_def fire_2020_def)
  ultimately show ?thesis using top by simp
qed

section \<open>Geometry lookup\<close>

lemma find_feature_None_iff:
  "find_feature geojson k = None \<longleftrightarrow> (\<forall>ft\<in>set geojson. GEOID ft \<noteq> k)"
  by (induction geojson) auto

lemma find_feature_found_iff:
  "find_feature geojson k \<noteq> None \<longleftrightarrow> (\<exists>ft\<in>set geojson. GEOID ft = k)"
  by (simp add: find_feature_None_iff)

lemma find_feature_ex_iff:
  "(\<exists>y. find_feature geojson k = Some y) \<longleftrightarrow> (\<exists>ft\<in>set geojson. GEOID ft = k)"
  using find_feature_found_iff [of geojson k] by simp

lemma info_markers_map_filter:
  "info_markers lib geojson fema_data rows
     = map (\<lambda>row. marker_of lib fema_data row (the (find_feature geojson (str_int (county_fips row)))))
         (filter (\<lambda>row. find_feature geojson (str_int (county_fips row)) \<noteq> None) rows)"
  by (induction rows) (auto split: option.splits)

lemma info_markers_append:
  "info_markers lib geojson fema_data (rows @ rows')
     = info_markers lib geojson fema_data rows @ info_markers lib geojson fema_data rows'"
  by (simp add: info_markers_map_filter)

section \<open>Disaster layers\<close>

lemma apply_filters_year_range [simp]:
  "apply_filters df (p\<lparr>fema_year_range := yr\<rparr>) = apply_filters df p"
  by (simp add: apply_filters_def)

lemma length_filter_mono:
  "(\<And>x. x \<in> set xs \<Longrightarrow> P x \<Longrightarrow> Q x) \<Longrightarrow> length (filter P xs) \<le> length (filter Q xs)"
  by (induction xs) auto

lemma fema_markers_rows:
  "fema_markers p (Some fema)
     = (if show_fema_markers p
        then Some (map (\<lambda>row. \<lparr> fm_location = (the (lat row), the (lon row)), fm_row = row \<rparr>)
               (filter (\<lambda>d. fst (fema_year_range p) \<le> dt_year (declarationDate d)
                          \<and> dt_year (declarationDate d) \<le> snd (fema_year_range p)
                          \<and> lat d \<noteq> None \<and> lon d \<noteq> None) fema))
        else None)"
  by (auto simp: fema_markers_def dropna_lat_lon_def year_filter_def intro: filter_cong)

lemma popup_count:
  "fema_count_county (popup_of lib (Some fema) row)
     = length (filter (\<lambda>d. fema_County d = County row) fema)"
  by (simp add: popup_of_def county_fema_def)

lemma popup_row_of [simp]: "popup_row (popup_of lib fema_data row) = row"
  by (simp add: popup_of_def split: option.splits)

text \<open>
  C5. With the Disaster table loaded, the count in the popup of every filtered county that
  has an info marker is the number of rows of the full Disaster table with that county's
  name; the info-marker layer (counts and fire lists included) does not change with the
  year range; and the number of clustered markers does not grow when the year range is
  narrowed.
\<close>

theorem C5_county_count_all_time:
  "map (\<lambda>m. (County (popup_row (im_popup m)), fema_count_county (im_popup m)))
       (info_marker_layer (dashboard lib df geojson (Some fema) p))
     = map (\<lambda>row. (County row, length (filter (\<lambda>d. fema_County d = County row) fema)))
         (filter (\<lambda>row. find_feature geojson (str_int (county_fips row)) \<noteq> None)
            (apply_filters df p))
   \<and> info_marker_layer (dashboard lib df geojson fema_data (p\<lparr>fema_year_range := yr\<rparr>))
       = info_marker_layer (dashboard lib df geojson fema_data p)
   \<and> (fst yr \<le> fst yr' \<and> snd yr' \<le> snd yr \<longrightarrow>
        (case fema_marker_layer (dashboard lib df geojson fema_data (p\<lparr>fema_year_range := yr'\<rparr>))
           of Some ms \<Rightarrow> length ms | None \<Rightarrow> 0)
        \<le> (case fema_marker_layer (dashboard lib df geojson fema_data (p\<lparr>fema_year_range := yr\<rparr>))
           of Some ms \<Rightarrow> length ms | None \<Rightarrow> 0))"
proof (intro conjI impI)
  show "map (\<lambda>m. (County (popup_row (im_popup m)), fema_count_county (im_popup m)))
       (info_marker_layer (dashboard lib df geojson (Some fema) p))
     = map (\<lambda>row. (County row, length (filter (\<lambda>d. fema_County d = County row) fema)))
         (filter (\<lambda>row. find_feature geojson (str_int (county_fips row)) \<noteq> None)
            (apply_filters df p))"
    by (simp add: dashboard_def Let_def info_markers_map_filter marker_of_def popup_count o_def)
  show "info_marker_layer (dashboard lib df geojson fema_data (p\<lparr>fema_year_range := yr\<rparr>))
       = info_marker_layer (dashboard lib df geojson fema_data p)"
    by (simp add: dashboard_def Let_def)
  assume nar: "fst yr \<le> fst yr' \<and> snd yr' \<le> snd yr"
  show "(case fema_marker_layer (dashboard lib df geojson fema_data (p\<lparr>fema_year_range := yr'\<rparr>))
           of Some ms \<Rightarrow> length ms | None \<Rightarrow> 0)
        \<le> (case fema_marker_layer (dashboard lib df geojson fema_data (p\<lparr>fema_year_range := yr\<rparr>))
           of Some ms \<Rightarrow> length ms | None \<Rightarrow> 0)"
  proof (cases fema_data)
    case None
    then show ?thesis by (simp add: dashboard_def Let_def fema_markers_def)
  next
    case (Some fema')
    have "length (filter (\<lambda>d. fst yr' \<le> dt_year (declarationDate d)
                          \<and> dt_year (declarationDate d) \<le> snd yr'
                          \<and> lat d \<noteq> None \<and> lon d \<noteq> None) fema')
        \<le> length (filter (\<lambda>d. fst yr \<le> dt_year (declarationDate d)
                          \<and> dt_year (declarationDate d) \<le> snd yr
                          \<and> lat d \<noteq> None \<and> lon d \<noteq> None) fema')"
      using nar by (intro length_filter_mono) auto
    with Some show ?thesis
      by (simp add: dashboard_def Let_def fema_markers_rows)
  qed
qed


lemma chelan_geoid: "GEOID chelan_ft = str_int (county_fips chelan)"
  by (simp add: chelan_def chelan_ft_def str_int_53007)

lemma apply_filters_chelan: "apply_filters [chelan] all_params = [chelan]"
  by (simp add: apply_filters_def all_params_def chelan_def)

lemma chelan_name: "County chelan = ''Chelan''"
  by (simp add: chelan_def)

lemma fire_counties:
  "fema_County fire_2000 = ''Chelan''" "fema_County fire_2020 = ''Chelan''"
  "fema_County fire_2021 = ''Chelan''"
  by (simp_all add: fire_2000_def fire_2020_def fire_2021_def)

text \<open>
  Chelan with three declarations: the popup counts 3 for every year range, and the range
  2021 to 2024 shows no more clustered markers than the range 2015 to 2024.
\<close>

theorem C5_county_count_all_time_witness:
  "map (\<lambda>m. (County (popup_row (im_popup m)), fema_count_county (im_popup m)))
       (info_marker_layer (dashboard stable_pandas [chelan] [chelan_ft]
          (Some [fire_2000, fire_2020, fire_2021]) all_params))
     = [(''Chelan'', 3)]
   \<and> (case fema_marker_layer (dashboard stable_pandas [chelan] [chelan_ft]
          (Some [fire_2000, fire_2020, fire_2021]) (all_params\<lparr>fema_year_range := (2021, 2024)\<rparr>))
        of Some ms \<Rightarrow> length ms | None \<Rightarrow> 0)
     \<le> (case fema_marker_layer (dashboard stable_pandas [chelan] [chelan_ft]
          (Some [fire_2000, fire_2020, fire_2021]) (all_params\<lparr>fema_year_range := (2015, 2024)\<rparr>))
        of Some ms \<Rightarrow> length ms | None \<Rightarrow> 0)"
proof -
  note c5 = C5_county_count_all_time [of stable_pandas "[chelan]" "[chelan_ft]"
      "[fire_2000, fire_2020, fire_2021]" all_params "Some [fire_2000, fire_2020, fire_2021]"
      "(2015, 2024)" "(2021, 2024)"]
  have "map (\<lambda>row. (County row,
            length (filter (\<lambda>d. fema_County d = County row) [fire_2000, fire_2020, fire_2021])))
         (filter (\<lambda>row. find_feature [chelan_ft] (str_int (county_fips row)) \<noteq> None)
            (apply_filters [chelan] all_params)) = [(''Chelan'', 3)]"
    by (simp add: apply_filters_chelan chelan_geoid chelan_name fire_counties)
  with c5 show ?thesis by simp
qed

text \<open>
  C8. The clustered layer is built exactly when the marker toggle is on and the Disaster
  table is loaded. Its markers are, in table order, the rows whose declaration year lies in
  the year range (both bounds included, the year alone compared) and whose \<open>lat\<close> and
  \<open>lon\<close> are both present, each marker placed at its row's coordinates. A row lacking
  a coordinate leaves the layer unchanged, yet it adds one to its county's popup count and
  is listed among the county's recent fires (for a county with fewer than three other
  rows).
\<close>

theorem C8_cluster_layer:
  "(fema_marker_layer (dashboard lib df geojson fema_data p) \<noteq> None
      \<longleftrightarrow> show_fema_markers p \<and> fema_data \<noteq> None)
   \<and> (show_fema_markers p \<longrightarrow>
        map_option (map fm_row) (fema_marker_layer (dashboard lib df geojson (Some fema) p))
          = Some (filter (\<lambda>d. fst (fema_year_range p) \<le> dt_year (declarationDate d)
                            \<and> dt_year (declarationDate d) \<le> snd (fema_year_range p)
                            \<and> lat d \<noteq> None \<and> lon d \<noteq> None) fema))
   \<and> (fema_marker_layer (dashboard lib df geojson fema_data p) = Some ms \<longrightarrow>
        (\<forall>m\<in>set ms. lat (fm_row m) = Some (fst (fm_location m))
                   \<and> lon (fm_row m) = Some (snd (fm_location m))))
   \<and> (lat d = None \<or> lon d = None \<longrightarrow>
        fema_marker_layer (dashboard lib df geojson (Some (d # fema)) p)
          = fema_marker_layer (dashboard lib df geojson (Some fema) p))
   \<and> (fema_County d = County row \<longrightarrow>
        fema_count_county (popup_of lib (Some (d # fema)) row)
          = Suc (fema_count_county (popup_of lib (Some fema) row)))
   \<and> (fema_County d = County row
        \<and> sort_values_contract declarationDate (sort_by_date_desc lib)
        \<and> length (county_fema fema row) < 3 \<longrightarrow>
        d \<in> set (recent_top lib 3 (county_fema (d # fema) row)))"
proof (intro conjI impI)
  show "(fema_marker_layer (dashboard lib df geojson fema_data p) \<noteq> None)
      = (show_fema_markers p \<and> fema_data \<noteq> None)"
    by (simp add: dashboard_def Let_def fema_markers_def split: option.splits)
  show "map_option (map fm_row) (fema_marker_layer (dashboard lib df geojson (Some fema) p))
          = Some (filter (\<lambda>d. fst (fema_year_range p) \<le> dt_year (declarationDate d)
                            \<and> dt_year (declarationDate d) \<le> snd (fema_year_range p)
                            \<and> lat d \<noteq> None \<and> lon d \<noteq> None) fema)"
    if "show_fema_markers p"
    using that by (simp add: dashboard_def Let_def fema_markers_rows o_def)
  show "\<forall>m\<in>set ms. lat (fm_row m) = Some (fst (fm_location m))
                   \<and> lon (fm_row m) = Some (snd (fm_location m))"
    if "fema_marker_layer (dashboard lib df geojson fema_data p) = Some ms"
    using that
  proof (cases fema_data)
    case None
    with that show ?thesis by (simp add: dashboard_def Let_def fema_markers_def)
  next
    case (Some fema')
    with that show ?thesis
      by (auto simp: dashboard_def Let_def fema_markers_rows split: if_splits)
  qed
  show "fema_marker_layer (dashboard lib df geojson (Some (d # fema)) p)
          = fema_marker_layer (dashboard lib df geojson (Some fema) p)"
    if "lat d = None \<or> lon d = None"
    using that by (auto simp: dashboard_def Let_def fema_markers_rows)
  show "fema_count_county (popup_of lib (Some (d # fema)) row)
          = Suc (fema_count_county (popup_of lib (Some fema) row))"
    if "fema_County d = County row"
    using that by (simp add: popup_count)
  show "d \<in> set (recent_top lib 3 (county_fema (d # fema) row))"
    if h: "fema_County d = County row
        \<and> sort_values_contract declarationDate (sort_by_date_desc lib)
        \<and> length (county_fema fema row) < 3"
  proof -
    let ?xs = "d # county_fema fema row"
    from h have cf: "county_fema (d # fema) row = ?xs"
      by (simp add: county_fema_def)
    from h have "sort_values_contract declarationDate (sort_by_date_desc lib)"
      by blast
    then have m: "mset (sort_by_date_desc lib ?xs) = mset ?xs"
      by (rule contract_mset)
    then have "length (sort_by_date_desc lib ?xs) = length ?xs"
      by (rule mset_eq_length)
    with h have "take 3 (sort_by_date_desc lib ?xs) = sort_by_date_desc lib ?xs"
      by simp
    moreover from m have "set (sort_by_date_desc lib ?xs) = set ?xs"
      by (rule mset_eq_setD)
    ultimately show ?thesis
      by (simp add: recent_top_def cf)
  qed
qed


text \<open>
  The fire of 2021 has no coordinates: it is absent from the layer, counted in Chelan's
  popup and listed there.
\<close>

theorem C8_cluster_layer_witness:
  "map_option (map fm_row) (fema_marker_layer (dashboard stable_pandas [chelan] [chelan_ft]
       (Some [fire_2000, fire_2020]) all_params)) = Some [fire_2020]
   \<and> fema_marker_layer (dashboard stable_pandas [chelan] [chelan_ft]
         (Some [fire_2000, fire_2020]) all_params)
       = Some [\<lparr> fm_location = (48, - 120), fm_row = fire_2020 \<rparr>]
   \<and> lat fire_2020 = Some 48 \<and> lon fire_2020 = Some (- 120)
   \<and> fema_marker_layer (dashboard stable_pandas [chelan] [chelan_ft]
         (Some [fire_2021, fire_2000, fire_2020]) all_params)
       = fema_marker_layer (dashboard stable_pandas [chelan] [chelan_ft]
         (Some [fire_2000, fire_2020]) all_params)
   \<and> fema_count_county (popup_of stable_pandas (Some [fire_2021, fire_2000, fire_2020]) chelan) = 3
   \<and> fire_2021 \<in> set (recent_top stable_pandas 3
         (county_fema [fire_2021, fire_2000, fire_2020] chelan))"
proof -
  note c8 = C8_cluster_layer [of stable_pandas "[chelan]" "[chelan_ft]"
      "Some [fire_2000, fire_2020]" all_params "[fire_2000, fire_2020]"
      "[\<lparr> fm_location = (48, - 120), fm_row = fire_2020 \<rparr>]" fire_2021 chelan]
  have shown: "show_fema_markers all_params"
    by (simp add: all_params_def)
  have nocoord: "lat fire_2021 = None \<or> lon fire_2021 = None"
    by (simp add: fire_2021_def)
  have same: "fema_County fire_2021 = County chelan"
    by (simp add: fire_counties chelan_name)
  have few: "length (county_fema [fire_2000, fire_2020] chelan) < 3"
    by (simp add: county_fema_sample)
  have rows: "filter (\<lambda>d. fst (fema_year_range all_params) \<le> dt_year (declarationDate d)
                  \<and> dt_year (declarationDate d) \<le> snd (fema_year_range all_params)
                  \<and> lat d \<noteq> None \<and> lon d \<noteq> None) [fire_2000, fire_2020] = [fire_2020]"
    by (simp add: all_params_def fire_2000_def fire_2020_def dt_year_def)
  have cnt: "fema_count_county (popup_of stable_pandas (Some [fire_2000, fire_2020]) chelan) = 2"
    by (simp add: popup_count fire_counties chelan_name)
  have coords: "the (lat fire_2020) = 48" "the (lon fire_2020) = - 120"
    by (simp_all add: fire_2020_def)
  have layer: "fema_marker_layer (dashboard stable_pandas [chelan] [chelan_ft]
         (Some [fire_2000, fire_2020]) all_params)
       = Some [\<lparr> fm_location = (48, - 120), fm_row = fire_2020 \<rparr>]"
  proof -
    have "fema_markers all_params (Some [fire_2000, fire_2020])
        = Some (map (\<lambda>row. \<lparr> fm_location = (the (lat row), the (lon row)), fm_row = row \<rparr>)
            [fire_2020])"
      using shown by (simp only: fema_markers_rows rows if_True)
    then show ?thesis
      by (simp add: dashboard_def Let_def coords)
  qed
  from c8 shown nocoord same few stable_pandas_date_contract rows cnt layer
  show ?thesis by simp
qed

section \<open>Tallies\<close>

lemma map_of_bump:
  "map_of (bump k kvs) = (map_of kvs)(k \<mapsto> (case map_of kvs k of None \<Rightarrow> 1 | Some c \<Rightarrow> Suc c))"
  by (induction kvs) (auto simp: fun_eq_iff)

lemma keys_bump: "fst ` set (bump k kvs) = insert k (fst ` set kvs)"
proof (induction kvs)
  case Nil
  then show ?case by simp
next
  case (Cons kv kvs)
  obtain k' c where kv: "kv = (k', c)" by (cases kv)
  show ?case
  proof (cases "k = k'")
    case True
    then show ?thesis by (simp add: kv insert_absorb)
  next
    case False
    then show ?thesis by (simp add: kv Cons.IH insert_commute)
  qed
qed

lemma distinct_bump: "distinct (map fst kvs) \<Longrightarrow> distinct (map fst (bump k kvs))"
proof (induction kvs)
  case Nil
  then show ?case by simp
next
  case (Cons kv kvs)
  obtain k' c where kv: "kv = (k', c)" by (cases kv)
  with Cons show ?case
    using keys_bump [of k kvs] by (auto simp: image_iff)
qed

lemma map_of_foldl_bump:
  "map_of (foldl (\<lambda>acc x. bump x acc) acc xs) v
     = (if v \<in> set xs
        then Some (count_list xs v + (case map_of acc v of None \<Rightarrow> 0 | Some c \<Rightarrow> c))
        else map_of acc v)"
  by (induction xs arbitrary: acc) (auto simp: map_of_bump split: option.splits)

lemma distinct_foldl_bump:
  "distinct (map fst acc) \<Longrightarrow> distinct (map fst (foldl (\<lambda>acc x. bump x acc) acc xs))"
  by (induction xs arbitrary: acc) (simp_all add: distinct_bump)

lemma map_of_tally:
  "map_of (tally xs) v = (if v \<in> set xs then Some (count_list xs v) else None)"
  by (simp add: tally_def map_of_foldl_bump)

lemma distinct_tally: "distinct (map fst (tally xs))"
  by (simp add: tally_def distinct_foldl_bump)

lemma set_tally: "set (tally xs) = (\<lambda>v. (v, count_list xs v)) ` set xs"
proof -
  have "(v, c) \<in> set (tally xs) \<longleftrightarrow> v \<in> set xs \<and> c = count_list xs v" for v c
  proof -
    have "(v, c) \<in> set (tally xs) \<longleftrightarrow> map_of (tally xs) v = Some c"
      using distinct_tally [of xs] by simp
    then show ?thesis by (auto simp: map_of_tally)
  qed
  then show ?thesis by (auto simp: image_iff)
qed

lemma count_list_map_filter:
  "count_list (map f xs) k = length (filter (\<lambda>x. f x = k) xs)"
  by (induction xs) auto

text \<open>
  C10. Each histogram (risk category, climate trend) holds exactly the distinct values
  that occur in the filtered counties, every value once and paired with its number of
  occurrences, which is positive; a value that does not occur in the filtered counties has
  no entry. This holds for whatever order the library's sort gives the entries.
\<close>

theorem C10_histograms:
  assumes "sort_values_contract snd (sort_by_count_desc lib)"
  shows "set (value_counts lib xs) = (\<lambda>v. (v, count_list xs v)) ` set xs
    \<and> distinct (map fst (value_counts lib xs))
    \<and> (\<forall>vc\<in>set (value_counts lib xs). 0 < snd vc)
    \<and> (v \<notin> set xs \<longrightarrow> v \<notin> fst ` set (value_counts lib xs))
    \<and> risk_counts (dashboard lib df geojson fema_data p)
        = value_counts lib (map risk_category (apply_filters df p))
    \<and> trend_counts (dashboard lib df geojson fema_data p)
        = value_counts lib (map climate_trend (apply_filters df p))"
proof -
  have m: "mset (value_counts lib xs) = mset (tally xs)"
    unfolding value_counts_def by (rule contract_mset [OF assms])
  from m have s: "set (value_counts lib xs) = (\<lambda>v. (v, count_list xs v)) ` set xs"
    using mset_eq_setD set_tally by metis
  have "mset (map fst (value_counts lib xs)) = mset (map fst (tally xs))"
    using m by simp
  then have d: "distinct (map fst (value_counts lib xs))"
    using distinct_tally [of xs] mset_eq_imp_distinct_iff by blast
  have pos: "\<forall>vc\<in>set (value_counts lib xs). 0 < snd vc"
    unfolding s by (auto simp: count_list_0_iff simp flip: neq0_conv)
  have absent: "v \<notin> set xs \<longrightarrow> v \<notin> fst ` set (value_counts lib xs)"
    unfolding s by auto
  have "risk_counts (dashboard lib df geojson fema_data p)
        = value_counts lib (map risk_category (apply_filters df p))"
    "trend_counts (dashboard lib df geojson fema_data p)
        = value_counts lib (map climate_trend (apply_filters df p))"
    by (simp_all add: dashboard_def Let_def)
  with s d pos absent show ?thesis by blast
qed


text \<open>One high-risk and two low-risk counties: two entries, none for \<open>Moderate\<close>.\<close>

theorem C10_histograms_witness:
  "set (value_counts stable_pandas [''High'', ''Low'', ''Low'']) = {(''High'', 1), (''Low'', 2)}
   \<and> value_counts stable_pandas [''High'', ''Low'', ''Low''] = [(''Low'', 2), (''High'', 1)]
   \<and> ''Moderate'' \<notin> fst ` set (value_counts stable_pandas [''High'', ''Low'', ''Low''])"
proof -
  note c10 = C10_histograms [OF stable_pandas_count_contract,
      of "[''High'', ''Low'', ''Low'']" "''Moderate''"]
  have "value_counts stable_pandas [''High'', ''Low'', ''Low''] = [(''Low'', 2), (''High'', 1)]"
    by (simp add: value_counts_def stable_pandas_def stable_sort_desc_def tally_def)
  with c10 show ?thesis by auto
qed

section \<open>Decimal rendering of identifiers\<close>







section \<open>The join of counties and features\<close>




lemma str_int_53033: "str_int 53033 = ''53033''"
  by (simp add: str_int_def str_nat.simps digit_char_def)


lemma apply_filters_two: "apply_filters [chelan, king] all_params = [chelan, king]"
  by (simp add: apply_filters_def all_params_def chelan_def king_def)


section \<open>Missing geometry\<close>

lemma main_renders:
  "column_max (map population df) = Some hi \<Longrightarrow> slider_accepts lib (population_slider hi) \<Longrightarrow>
   apply_filters df p \<noteq> [] \<Longrightarrow>
   main lib (Some df) (Some geojson) None p = Inr (dashboard lib df geojson None p)"
  by (simp add: main_def sidebar_def)

lemma chelan_max: "column_max (map population [chelan]) = Some 79000"
  by (simp add: column_max_def chelan_def)

lemma chelan_slider: "slider_accepts stable_pandas (population_slider 79000)"
  by (simp add: stable_pandas_def population_slider_def)

lemma main_chelan:
  "main stable_pandas (Some [chelan]) (Some geojson) None all_params
     = Inr (dashboard stable_pandas [chelan] geojson None all_params)"
  by (rule main_renders [OF chelan_max chelan_slider]) (simp add: apply_filters_chelan)

lemma info_markers_only_matched:
  "info_markers lib geojson fema_data rows
     = info_markers lib geojson fema_data
         (filter (\<lambda>row. \<exists>ft\<in>set geojson. GEOID ft = str_int (county_fips row)) rows)"
  by (simp add: info_markers_map_filter find_feature_ex_iff)

lemma length_info_markers:
  "length (info_markers lib geojson fema_data rows)
     = length (filter (\<lambda>row. \<exists>ft\<in>set geojson. GEOID ft = str_int (county_fips row)) rows)"
  by (simp add: info_markers_map_filter find_feature_ex_iff)

lemma info_markers_skip:
  "\<forall>ft\<in>set geojson. GEOID ft \<noteq> str_int (county_fips row) \<Longrightarrow>
   info_markers lib geojson fema_data (rows @ row # rows')
     = info_markers lib geojson fema_data (rows @ rows')"
  by (simp add: info_markers_append find_feature_None_iff [THEN iffD2])

text \<open>
  C7 (as the code has it). A filtered county without a feature of matching identifier is
  passed over in silence: the info-marker layer is that of the matched counties alone (one
  marker each), dropping an unmatched county from the loop changes nothing, whether the
  script ends in an error does not depend on the features, and apart from the two map
  layers that are given the features (the choropleth, in its \<open>geo_data\<close> only, and the
  info markers) no output of the pass depends on them. So the only effect is the omitted
  marker, and nothing reports the failure.
\<close>

theorem C7_lookup_failure_silent:
  "info_marker_layer (dashboard lib df geojson fema_data p)
     = info_markers lib geojson fema_data
         (filter (\<lambda>row. \<exists>ft\<in>set geojson. GEOID ft = str_int (county_fips row))
            (apply_filters df p))
   \<and> length (info_marker_layer (dashboard lib df geojson fema_data p))
       = length (filter (\<lambda>row. \<exists>ft\<in>set geojson. GEOID ft = str_int (county_fips row))
                   (apply_filters df p))
   \<and> ((\<forall>ft\<in>set geojson. GEOID ft \<noteq> str_int (county_fips row)) \<longrightarrow>
        info_markers lib geojson fema_data (rows @ row # rows')
          = info_markers lib geojson fema_data (rows @ rows'))
   \<and> isl (main lib (Some df) (Some geojson) fema_data p)
       = isl (main lib (Some df) (Some geojson') fema_data p)
   \<and> (dashboard lib df geojson fema_data p)\<lparr>choropleth_layer := ch, info_marker_layer := ms\<rparr>
       = (dashboard lib df geojson' fema_data p)\<lparr>choropleth_layer := ch, info_marker_layer := ms\<rparr>
   \<and> (choropleth_layer (dashboard lib df geojson fema_data p))\<lparr>geo_data := g\<rparr>
       = (choropleth_layer (dashboard lib df geojson' fema_data p))\<lparr>geo_data := g\<rparr>"
proof (intro conjI impI)
  show "info_marker_layer (dashboard lib df geojson fema_data p)
     = info_markers lib geojson fema_data
         (filter (\<lambda>row. \<exists>ft\<in>set geojson. GEOID ft = str_int (county_fips row))
            (apply_filters df p))"
    using info_markers_only_matched [of lib geojson fema_data "apply_filters df p"]
    by (simp add: dashboard_def Let_def)
  show "length (info_marker_layer (dashboard lib df geojson fema_data p))
       = length (filter (\<lambda>row. \<exists>ft\<in>set geojson. GEOID ft = str_int (county_fips row))
                   (apply_filters df p))"
    by (simp add: dashboard_def Let_def length_info_markers)
  show "info_markers lib geojson fema_data (rows @ row # rows')
          = info_markers lib geojson fema_data (rows @ rows')"
    if "\<forall>ft\<in>set geojson. GEOID ft \<noteq> str_int (county_fips row)"
    using that by (rule info_markers_skip)
  show "isl (main lib (Some df) (Some geojson) fema_data p)
       = isl (main lib (Some df) (Some geojson') fema_data p)"
    by (simp add: main_def split: option.splits)
  show "(dashboard lib df geojson fema_data p)\<lparr>choropleth_layer := ch, info_marker_layer := ms\<rparr>
       = (dashboard lib df geojson' fema_data p)\<lparr>choropleth_layer := ch, info_marker_layer := ms\<rparr>"
    by (simp add: dashboard_def Let_def)
  show "(choropleth_layer (dashboard lib df geojson fema_data p))\<lparr>geo_data := g\<rparr>
       = (choropleth_layer (dashboard lib df geojson' fema_data p))\<lparr>geo_data := g\<rparr>"
    by (simp add: dashboard_def Let_def choropleth_of_def)
qed

lemma king_geoid: "GEOID king_ft = str_int (county_fips king)"
  by (simp add: king_def king_ft_def str_int_53033)

lemma chelan_not_king: "GEOID king_ft \<noteq> str_int (county_fips chelan)"
  by (simp add: chelan_def king_ft_def str_int_53007)

text \<open>Chelan has no feature among King's: one marker for two filtered counties.\<close>

theorem C7_lookup_failure_silent_witness:
  "info_markers stable_pandas [king_ft] None ([] @ chelan # [king])
     = info_markers stable_pandas [king_ft] None ([] @ [king])
   \<and> length (info_marker_layer (dashboard stable_pandas [chelan, king] [king_ft] None all_params))
       = 1"
proof -
  note c7 = C7_lookup_failure_silent [of stable_pandas "[chelan, king]" "[king_ft]" None
      all_params chelan "[]" "[king]"]
  have miss: "\<forall>ft\<in>set [king_ft]. GEOID ft \<noteq> str_int (county_fips chelan)"
    by (simp add: chelan_not_king)
  have one: "length (filter (\<lambda>row. \<exists>ft\<in>set [king_ft]. GEOID ft = str_int (county_fips row))
                   (apply_filters [chelan, king] all_params)) = 1"
    by (simp add: apply_filters_two chelan_not_king king_geoid [THEN eqTrueI])
  have "info_markers stable_pandas [king_ft] None ([] @ chelan # [king])
     = info_markers stable_pandas [king_ft] None ([] @ [king])"
    using c7 [THEN conjunct2, THEN conjunct2, THEN conjunct1] miss by (rule mp)
  moreover have "length (info_marker_layer (dashboard stable_pandas [chelan, king] [king_ft] None
      all_params)) = 1"
    using c7 [THEN conjunct2, THEN conjunct1] one by (rule trans)
  ultimately show ?thesis by (rule conjI)
qed

text \<open>
  The claim as the specification words it fails: Chelan is in the filtered set and no
  feature matches; the script ends without an error, adds no marker, and the texts it shows
  are the sidebar count (1 of 1 counties) and the default caption, with no report of the
  failure.
\<close>

theorem C7_not_surfaced_counterexample:
  "\<not> isl (main stable_pandas (Some [chelan]) (Some [king_ft]) None all_params)
   \<and> csv (projr (main stable_pandas (Some [chelan]) (Some [king_ft]) None all_params)) = [chelan]
   \<and> info_marker_layer (projr (main stable_pandas (Some [chelan]) (Some [king_ft]) None
        all_params)) = []
   \<and> sidebar_info (projr (main stable_pandas (Some [chelan]) (Some [king_ft]) None all_params))
       = (1, 1)
   \<and> map_caption (projr (main stable_pandas (Some [chelan]) (Some [king_ft]) None all_params))
       = DefaultCaption
   \<and> data_source_info (projr (main stable_pandas (Some [chelan]) (Some [king_ft]) None
        all_params)) = None"
proof -
  have run: "main stable_pandas (Some [chelan]) (Some [king_ft]) None all_params
      = Inr (dashboard stable_pandas [chelan] [king_ft] None all_params)"
    by (rule main_chelan)
  have "dynamic_caption all_params = DefaultCaption"
    by (simp add: dynamic_caption_def all_params_def)
  then show ?thesis
    unfolding run
    by (simp add: dashboard_def Let_def apply_filters_chelan chelan_not_king)
qed


section \<open>Disaster table unavailable\<close>

lemma popup_without_fema:
  "m \<in> set (info_markers lib geojson None rows) \<Longrightarrow>
   fema_count_county (im_popup m) = 0 \<and> fires_list (im_popup m) = ''Data not available''"
  by (auto simp: info_markers_map_filter marker_of_def popup_of_def)

lemma federal_cells_without_fema:
  "map t_federal_disasters (table_rows (rankings_table rows None))
     = replicate (length rows) None"
  by (simp add: rankings_table_def display_row_def o_def map_replicate_const del: upt_Suc)

lemma federal_cell:
  "(case map_of (tally (map fema_County fema)) k of Some n \<Rightarrow> n | None \<Rightarrow> 0)
     = length (filter (\<lambda>d. fema_County d = k) fema)"
proof (cases "k \<in> fema_County ` set fema")
  case True
  then show ?thesis by (simp add: map_of_tally count_list_map_filter)
next
  case False
  then have "filter (\<lambda>d. fema_County d = k) fema = []"
    by (auto simp: filter_empty_conv)
  with False show ?thesis by (simp add: map_of_tally)
qed

lemma federal_display_row:
  "t_federal_disasters (display_row (Some fema) ir)
     = Some (length (filter (\<lambda>d. fema_County d = County (snd ir)) fema))"
  by (simp add: display_row_def federal_cell)

lemma federal_cells_with_fema:
  "map t_federal_disasters (table_rows (rankings_table rows (Some fema)))
     = map (\<lambda>row. Some (length (filter (\<lambda>d. fema_County d = County row) fema))) rows"
proof -
  let ?cell = "\<lambda>row. Some (length (filter (\<lambda>d. fema_County d = County row) fema))"
  have "map t_federal_disasters (table_rows (rankings_table rows (Some fema)))
      = map (\<lambda>ir. ?cell (snd ir)) (zip [1 ..< Suc (length rows)] rows)"
    by (simp add: rankings_table_def federal_display_row o_def del: upt_Suc)
  also have "\<dots> = map ?cell (map snd (zip [1 ..< Suc (length rows)] rows))"
    by (simp only: map_map o_def)
  also have "map snd (zip [1 ..< Suc (length rows)] rows) = rows"
    by (rule map_snd_zip) (simp del: upt_Suc)
  finally show ?thesis .
qed

text \<open>
  C4 (as the code has it). When the Disaster table is unavailable, the script completes
  provided the sidebar and the charts do: the Counties table has a row and its population
  slider is accepted, and the filtered table has a row. Then the FEMA card shows the
  fallback 211, no clustered layer is built, every county popup shows the count 0 and the
  text \<open>Data not available\<close>, and the ranked table has no federal-disaster column at all
  (seven columns, no cell). The zero fill belongs to the loaded case: the table then has
  the column, and a county's cell is the number of rows with its name, 0 where there is
  none.
\<close>

theorem C4_degraded_without_fema:
  assumes "column_max (map population df) = Some hi"
    and "slider_accepts lib (population_slider hi)"
    and "apply_filters df p \<noteq> []"
  shows "(\<exists>pg. main lib (Some df) (Some geojson) None p = Inr pg
       \<and> fema_fire_disasters (key_metrics pg) = 211
       \<and> fema_marker_layer pg = None
       \<and> (\<forall>m\<in>set (info_marker_layer pg).
             fema_count_county (im_popup m) = 0
             \<and> fires_list (im_popup m) = ''Data not available'')
       \<and> columns (display_df pg)
           = [''Rank'', ''County'', ''Risk Score'', ''Category'', ''Climate Trend'',
              ''Population at Risk'', ''WUI %'']
       \<and> map t_federal_disasters (table_rows (display_df pg))
           = replicate (length (apply_filters df p)) None)
    \<and> columns (rankings_table rows (Some fema))
        = [''Rank'', ''County'', ''Risk Score'', ''Category'', ''Climate Trend'',
           ''Population at Risk'', ''WUI %'', ''Federal Disasters'']
    \<and> map t_federal_disasters (table_rows (rankings_table rows (Some fema)))
        = map (\<lambda>row. Some (length (filter (\<lambda>d. fema_County d = County row) fema))) rows"
proof (intro conjI exI)
  show "main lib (Some df) (Some geojson) None p = Inr (dashboard lib df geojson None p)"
    using assms by (rule main_renders)
  show "fema_fire_disasters (key_metrics (dashboard lib df geojson None p)) = 211"
    by (simp add: dashboard_def Let_def metrics_row_def)
  show "fema_marker_layer (dashboard lib df geojson None p) = None"
    by (simp add: dashboard_def Let_def fema_markers_def)
  show "\<forall>m\<in>set (info_marker_layer (dashboard lib df geojson None p)).
             fema_count_county (im_popup m) = 0
             \<and> fires_list (im_popup m) = ''Data not available''"
    using popup_without_fema [of _ lib geojson "apply_filters df p"]
    by (simp add: dashboard_def Let_def)
  show "columns (display_df (dashboard lib df geojson None p))
           = [''Rank'', ''County'', ''Risk Score'', ''Category'', ''Climate Trend'',
              ''Population at Risk'', ''WUI %'']"
    by (simp add: dashboard_def Let_def rankings_table_def)
  show "map t_federal_disasters (table_rows (display_df (dashboard lib df geojson None p)))
           = replicate (length (apply_filters df p)) None"
    using federal_cells_without_fema [of "apply_filters df p"]
    by (simp add: dashboard_def Let_def)
  show "columns (rankings_table rows (Some fema))
        = [''Rank'', ''County'', ''Risk Score'', ''Category'', ''Climate Trend'',
           ''Population at Risk'', ''WUI %'', ''Federal Disasters'']"
    by (simp add: rankings_table_def)
  show "map t_federal_disasters (table_rows (rankings_table rows (Some fema)))
        = map (\<lambda>row. Some (length (filter (\<lambda>d. fema_County d = County row) fema))) rows"
    by (rule federal_cells_with_fema)
qed

text \<open>
  Chelan without a Disaster table; and, with a table holding one Chelan fire, the cell of
  King is 0.
\<close>

theorem C4_degraded_without_fema_witness:
  "column_max (map population [chelan]) = Some 79000
   \<and> slider_accepts stable_pandas (population_slider 79000)
   \<and> apply_filters [chelan] all_params \<noteq> []
   \<and> (\<exists>pg. main stable_pandas (Some [chelan]) (Some [chelan_ft]) None all_params = Inr pg
         \<and> fema_fire_disasters (key_metrics pg) = 211
         \<and> (\<forall>m\<in>set (info_marker_layer pg).
               fema_count_county (im_popup m) = 0
               \<and> fires_list (im_popup m) = ''Data not available'')
         \<and> map t_federal_disasters (table_rows (display_df pg)) = [None])
   \<and> map t_federal_disasters (table_rows (rankings_table [king] (Some [fire_2020]))) = [Some 0]"
proof -
  have ne: "apply_filters [chelan] all_params \<noteq> []"
    by (simp add: apply_filters_chelan)
  note c4 = C4_degraded_without_fema [OF chelan_max chelan_slider ne, of "[chelan_ft]" "[king]"
      "[fire_2020]"]
  have "map (\<lambda>row. Some (length (filter (\<lambda>d. fema_County d = County row) [fire_2020]))) [king]
      = [Some 0]"
    by (simp add: king_def fire_2020_def)
  with c4 ne chelan_max chelan_slider show ?thesis by (auto simp: apply_filters_chelan)
qed

text \<open>
  The claim as the specification words it fails on the ranked table: without the Disaster
  table there is no \<open>Federal Disasters\<close> column and the row holds no federal-disaster
  cell, rather than a cell holding 0.
\<close>

theorem C4_zero_filled_column_counterexample:
  "columns (display_df (projr (main stable_pandas (Some [chelan]) (Some [chelan_ft]) None
       all_params)))
     = [''Rank'', ''County'', ''Risk Score'', ''Category'', ''Climate Trend'',
        ''Population at Risk'', ''WUI %'']
   \<and> map t_federal_disasters (table_rows (display_df (projr (main stable_pandas (Some [chelan])
        (Some [chelan_ft]) None all_params)))) = [None]"
proof -
  have run: "main stable_pandas (Some [chelan]) (Some [chelan_ft]) None all_params
      = Inr (dashboard stable_pandas [chelan] [chelan_ft] None all_params)"
    by (rule main_chelan)
  show ?thesis
    unfolding run
    by (simp add: dashboard_def Let_def apply_filters_chelan rankings_table_def display_row_def)
qed

end
